theory Spec2Isabelle
  imports Main
begin

section \<open>Prompt management backend (backend/main.py)\<close>

text \<open>
  The service keeps one table, \<open>prompts\<close>, behind SQLAlchemy and serves it through
  FastAPI handlers. The table is modelled as the list of its rows in insertion order,
  every handler as a function from the table (and the clock readings it takes) to the
  table after the call and what the handler returns or raises. The model is of the
  handlers' bodies and of the statements they send to the store; parsing a request body
  and serialising a returned object are the framework's.
\<close>

subsection \<open>Data model\<close>

type_synonym timestamp = nat

text \<open>
  A row of \<open>prompts\<close> (class \<open>Prompt\<close>). \<open>id\<close> is the integer primary key, \<open>category\<close>
  carries the unique index. \<open>title\<close>, \<open>prompt\<close> and \<open>is_active\<close> are nullable columns and
  an update can store \<open>None\<close> in them, so they are options; \<open>category\<close> and the two
  timestamps are written only by an insert, which always supplies them.
\<close>

record Prompt =
  id_col :: int
  category :: string
  title :: "string option"
  prompt :: "string option"
  is_active :: "bool option"
  created_at :: timestamp
  updated_at :: timestamp

text \<open>
  A \<open>Prompt\<close> object before its INSERT: it has neither id nor timestamps, and
  \<open>new_is_active = None\<close> means the attribute was never set.
\<close>

record PromptNew =
  new_category :: string
  new_title :: "string option"
  new_prompt :: "string option"
  new_is_active :: "bool option"

text \<open>
  The body of a create request (\<open>PromptCreate\<close>). \<open>pc_is_active = None\<close> is a body
  without the \<open>is_active\<close> key.
\<close>

record PromptCreate =
  pc_category :: string
  pc_title :: string
  pc_prompt :: string
  pc_is_active :: "bool option"

text \<open>
  The body of an update request (\<open>PromptUpdate\<close>). Every field is \<open>Optional\<close> with
  default \<open>None\<close> and the handler reads it with \<open>exclude_unset\<close>, so a field has three
  states: \<open>None\<close> for a key that is absent from the body, \<open>Some None\<close> for an explicit
  null, \<open>Some (Some v)\<close> for a value.
\<close>

record PromptUpdate =
  pu_title :: "string option option"
  pu_prompt :: "string option option"
  pu_is_active :: "bool option option"


text \<open>
  What a handler can raise: its own \<open>HTTPException\<close> with status code and detail, or
  an exception of the storage layer that it does not catch.
\<close>

datatype error = HTTPException nat string | IntegrityError | InvalidRequestError

definition NotFound :: error where
  "NotFound = HTTPException 404 ''Prompt not found''"

definition Conflict :: error where
  "Conflict = HTTPException 400 ''Category already exists''"

text \<open>What \<open>init_default_prompts\<close> prints.\<close>

datatype printed = Print string | Print_error string error

subsection \<open>The storage layer\<close>

text \<open>
  The id of the next inserted row: one more than the largest id in the table, 1 for an
  empty table (the rowid rule of the default SQLite store).
\<close>

primrec max_id :: "Prompt list \<Rightarrow> int" where
  "max_id [] = 0"
| "max_id (r # rs) = max (id_col r) (max_id rs)"

definition next_id :: "Prompt list \<Rightarrow> int" where
  "next_id rows = max_id rows + 1"

text \<open>
  \<open>db.query(Prompt).filter(Prompt.category == c).first()\<close>: the first row of that
  category in table order, \<open>None\<close> when there is none.
\<close>

definition query_first :: "Prompt list \<Rightarrow> string \<Rightarrow> Prompt option" where
  "query_first rows c = find (\<lambda>r. category r = c) rows"

text \<open>
  The INSERT that a commit issues for an added object. The unique index on \<open>category\<close>
  rejects a second row of the same category. The column defaults fill what the object
  does not set: \<open>is_active\<close> is \<open>True\<close>, and \<open>created_at\<close> and \<open>updated_at\<close> each call
  \<open>datetime.utcnow\<close> on their own, hence two clock readings.
\<close>

definition db_insert ::
  "Prompt list \<Rightarrow> PromptNew \<Rightarrow> timestamp \<Rightarrow> timestamp \<Rightarrow> error + (Prompt list \<times> int)" where
  "db_insert rows p t_created t_updated =
     (if new_category p \<in> set (map category rows) then Inl IntegrityError
      else Inr (rows @
             [\<lparr>id_col = next_id rows,
               category = new_category p,
               title = new_title p,
               prompt = new_prompt p,
               is_active = (case new_is_active p of None \<Rightarrow> Some True | Some b \<Rightarrow> Some b),
               created_at = t_created,
               updated_at = t_updated\<rparr>],
            next_id rows))"

text \<open>
  What a commit stores for an object that was loaded as \<open>loaded\<close> and now has the
  attribute values \<open>p\<close>. The ORM compares each assigned attribute with the loaded value and
  puts only the columns that differ into the UPDATE; when none differs it issues no UPDATE.
  \<open>updated_at\<close> carries \<open>onupdate=datetime.utcnow\<close>: when an UPDATE is issued and
  \<open>updated_at\<close> is not among its columns (the assigned value equals the loaded one while
  another column differs), the hook fills it with its own clock reading \<open>t_hook\<close>.
\<close>

definition committed_row :: "Prompt \<Rightarrow> Prompt \<Rightarrow> timestamp \<Rightarrow> Prompt" where
  "committed_row loaded p t_hook =
     (if p = loaded then loaded
      else if updated_at p = updated_at loaded then p\<lparr>updated_at := t_hook\<rparr>
      else p)"

text \<open>The UPDATE itself, addressed by primary key; no statement when nothing differs.\<close>

definition db_update :: "Prompt list \<Rightarrow> Prompt \<Rightarrow> Prompt \<Rightarrow> timestamp \<Rightarrow> Prompt list" where
  "db_update rows loaded p t_hook =
     (if p = loaded then rows
      else map (\<lambda>r. if id_col r = id_col p then committed_row loaded p t_hook else r) rows)"

text \<open>\<open>db.refresh(obj)\<close>: read the row back by primary key.\<close>

definition db_refresh :: "Prompt list \<Rightarrow> int \<Rightarrow> error + Prompt" where
  "db_refresh rows i =
     (case find (\<lambda>r. id_col r = i) rows of
        None \<Rightarrow> Inl InvalidRequestError
      | Some r \<Rightarrow> Inr r)"

text \<open>
  The constraints of the schema: \<open>id\<close> is the primary key and \<open>category\<close> has a unique
  index.
\<close>

definition wf_store :: "Prompt list \<Rightarrow> bool" where
  "wf_store rows \<longleftrightarrow> distinct (map id_col rows) \<and> distinct (map category rows)"

subsection \<open>Default prompts\<close>

definition roadmap_body :: string where
  "roadmap_body =
     ''Analyze the repository data and provide strategic roadmap recommendations. Focus on:\<newline>'' @
     ''1. Feature gaps based on commit patterns\<newline>'' @
     ''2. Technical debt that should be prioritized\<newline>'' @
     ''3. Performance improvements needed\<newline>'' @
     ''4. User experience enhancements\<newline>'' @
     ''5. Scalability considerations\<newline>'' @
     ''\<newline>'' @
     ''Provide 3-5 roadmap items with titles, descriptions, priority levels (High/Medium/Low), and estimated effort.''"

definition vulnerabilities_body :: string where
  "vulnerabilities_body =
     ''Analyze the repository for potential security issues and vulnerabilities. Look for:\<newline>'' @
     ''1. Security anti-patterns in commit messages\<newline>'' @
     ''2. Dependencies that might have known vulnerabilities\<newline>'' @
     ''3. Code patterns that could lead to security issues\<newline>'' @
     ''4. Missing security best practices\<newline>'' @
     ''5. Authentication and authorization concerns\<newline>'' @
     ''\<newline>'' @
     ''Provide 3-5 security items with titles, descriptions, severity levels (Critical/High/Medium/Low), and specific recommendations.''"

definition teamAssignments_body :: string where
  "teamAssignments_body =
     ''Based on the repository structure and commit patterns, recommend team assignments. Consider:\<newline>'' @
     ''1. Code ownership patterns from commit history\<newline>'' @
     ''2. Technology stack expertise requirements\<newline>'' @
     ''3. Feature areas that need dedicated ownership\<newline>'' @
     ''4. Cross-functional collaboration opportunities\<newline>'' @
     ''5. Skill development needs\<newline>'' @
     ''\<newline>'' @
     ''Provide 3-5 assignment recommendations with specific tasks, suggested team member roles, and reasoning.''"

definition newFeatures_body :: string where
  "newFeatures_body =
     ''Analyze the current functionality and suggest valuable new features. Consider:\<newline>'' @
     ''1. User pain points that could be addressed\<newline>'' @
     ''2. Market opportunities based on the tech stack\<newline>'' @
     ''3. Integration possibilities with other tools\<newline>'' @
     ''4. Performance and scalability improvements\<newline>'' @
     ''5. User experience enhancements\<newline>'' @
     ''\<newline>'' @
     ''Provide 3-5 feature suggestions with titles, descriptions, impact assessment (High/Medium/Low), and implementation complexity.''"

definition technicalDebt_body :: string where
  "technicalDebt_body =
     ''Identify technical debt and code quality issues. Look for:\<newline>'' @
     ''1. Code duplication patterns\<newline>'' @
     ''2. Outdated dependencies or patterns\<newline>'' @
     ''3. Performance bottlenecks\<newline>'' @
     ''4. Maintainability issues\<newline>'' @
     ''5. Testing gaps\<newline>'' @
     ''\<newline>'' @
     ''Provide 3-5 technical debt items with specific issues, descriptions, priority levels, and effort estimates.''"

definition performance_body :: string where
  "performance_body =
     ''Analyze potential performance issues and optimization opportunities. Consider:\<newline>'' @
     ''1. Database query optimization needs\<newline>'' @
     ''2. Caching opportunities\<newline>'' @
     ''3. Frontend performance improvements\<newline>'' @
     ''4. API optimization potential\<newline>'' @
     ''5. Resource usage optimization\<newline>'' @
     ''\<newline>'' @
     ''Provide 3-5 performance recommendations with specific areas, descriptions, and optimization strategies.''"

definition default_prompts :: "PromptNew list" where
  "default_prompts =
     [\<lparr>new_category = ''roadmap'',
        new_title = Some ''Product Roadmap Analysis'',
        new_prompt = Some roadmap_body,
        new_is_active = None\<rparr>,
      \<lparr>new_category = ''vulnerabilities'',
        new_title = Some ''Security & Vulnerability Assessment'',
        new_prompt = Some vulnerabilities_body,
        new_is_active = None\<rparr>,
      \<lparr>new_category = ''teamAssignments'',
        new_title = Some ''Team Assignment Recommendations'',
        new_prompt = Some teamAssignments_body,
        new_is_active = None\<rparr>,
      \<lparr>new_category = ''newFeatures'',
        new_title = Some ''New Feature Suggestions'',
        new_prompt = Some newFeatures_body,
        new_is_active = None\<rparr>,
      \<lparr>new_category = ''technicalDebt'',
        new_title = Some ''Technical Debt Analysis'',
        new_prompt = Some technicalDebt_body,
        new_is_active = None\<rparr>,
      \<lparr>new_category = ''performance'',
        new_title = Some ''Performance Optimization'',
        new_prompt = Some performance_body,
        new_is_active = None\<rparr>]"

text \<open>
  The flush of the pending inserts inside one transaction, in the order of \<open>db.add\<close>.
  It works on the transaction's own view of the table and stops at the first insert
  that fails. \<open>clock k\<close> is the \<open>k\<close>-th reading of \<open>datetime.utcnow\<close> during the flush.
\<close>

fun flush_inserts ::
  "Prompt list \<Rightarrow> PromptNew list \<Rightarrow> (nat \<Rightarrow> timestamp) \<Rightarrow> nat \<Rightarrow> error + Prompt list" where
  "flush_inserts rows [] clock k = Inr rows"
| "flush_inserts rows (p # ps) clock k =
     (case db_insert rows p (clock k) (clock (k + 1)) of
        Inl e \<Rightarrow> Inl e
      | Inr (rows', i) \<Rightarrow> flush_inserts rows' ps clock (k + 2))"

text \<open>
  \<open>init_default_prompts\<close>. The session counts the rows, returns at once when there are
  any, and otherwise adds the six defaults and commits. \<open>concurrent\<close> is what other
  writers to the same database commit between the count and this commit (the identity
  when there are none). When the commit raises, the \<open>except\<close> clause prints the error
  and rolls the transaction back: the table is then what the other writers left.
  The result is the table after the call and what was printed.
\<close>

definition init_default_prompts_interleaved ::
  "(Prompt list \<Rightarrow> Prompt list) \<Rightarrow> Prompt list \<Rightarrow> (nat \<Rightarrow> timestamp)
     \<Rightarrow> Prompt list \<times> printed list" where
  "init_default_prompts_interleaved concurrent rows clock =
     (if length rows > 0 then (rows, [])
      else
        (let rows1 = concurrent rows in
         case flush_inserts rows1 default_prompts clock 0 of
           Inr rows2 \<Rightarrow> (rows2, [Print ''Default prompts initialized successfully!''])
         | Inl e \<Rightarrow> (rows1, [Print_error ''Error initializing default prompts: '' e])))"

definition init_default_prompts ::
  "Prompt list \<Rightarrow> (nat \<Rightarrow> timestamp) \<Rightarrow> Prompt list \<times> printed list" where
  "init_default_prompts rows clock = init_default_prompts_interleaved (\<lambda>d. d) rows clock"

subsection \<open>Handlers\<close>



text \<open>\<open>GET /prompts/{category}\<close>\<close>

definition get_prompt_by_category :: "Prompt list \<Rightarrow> string \<Rightarrow> error + Prompt" where
  "get_prompt_by_category rows c =
     (case query_first rows c of
        None \<Rightarrow> Inl NotFound
      | Some p \<Rightarrow> Inr p)"

text \<open>
  \<open>Prompt(**prompt.dict())\<close>: the request's fields, with the default \<open>True\<close> of
  \<open>PromptBase.is_active\<close> for a body that omits it.
\<close>

definition Prompt_of_create :: "PromptCreate \<Rightarrow> PromptNew" where
  "Prompt_of_create req =
     \<lparr>new_category = pc_category req,
      new_title = Some (pc_title req),
      new_prompt = Some (pc_prompt req),
      new_is_active = Some (case pc_is_active req of None \<Rightarrow> True | Some b \<Rightarrow> b)\<rparr>"

text \<open>
  \<open>POST /prompts\<close>. \<open>rows\<close> is the table that the existence query reads, \<open>concurrent\<close>
  what other writers commit between that query and this handler's commit, \<open>t1\<close> and
  \<open>t2\<close> the clock readings of the two timestamp defaults. The handler catches nothing:
  an error of the insert leaves it as it is.
\<close>

definition create_prompt_interleaved ::
  "(Prompt list \<Rightarrow> Prompt list) \<Rightarrow> Prompt list \<Rightarrow> PromptCreate \<Rightarrow> timestamp \<Rightarrow> timestamp
     \<Rightarrow> Prompt list \<times> (error + Prompt)" where
  "create_prompt_interleaved concurrent rows req t1 t2 =
     (case query_first rows (pc_category req) of
        Some existing \<Rightarrow> (rows, Inl Conflict)
      | None \<Rightarrow>
          (let rows1 = concurrent rows in
           case db_insert rows1 (Prompt_of_create req) t1 t2 of
             Inl e \<Rightarrow> (rows1, Inl e)
           | Inr (rows2, i) \<Rightarrow> (rows2, db_refresh rows2 i)))"

definition create_prompt ::
  "Prompt list \<Rightarrow> PromptCreate \<Rightarrow> timestamp \<Rightarrow> timestamp \<Rightarrow> Prompt list \<times> (error + Prompt)" where
  "create_prompt rows req t1 t2 = create_prompt_interleaved (\<lambda>d. d) rows req t1 t2"

text \<open>The \<open>setattr\<close> loop over \<open>prompt_update.dict(exclude_unset=True)\<close>.\<close>

definition setattrs :: "Prompt \<Rightarrow> PromptUpdate \<Rightarrow> Prompt" where
  "setattrs p u =
     p\<lparr>title := (case pu_title u of None \<Rightarrow> title p | Some v \<Rightarrow> v),
       prompt := (case pu_prompt u of None \<Rightarrow> prompt p | Some v \<Rightarrow> v),
       is_active := (case pu_is_active u of None \<Rightarrow> is_active p | Some v \<Rightarrow> v)\<rparr>"

text \<open>
  \<open>PUT /prompts/{category}\<close>; \<open>now\<close> is the handler's reading of \<open>datetime.utcnow\<close>,
  \<open>t_hook\<close> the reading that the \<open>onupdate\<close> hook takes at commit when it runs.
\<close>

definition update_prompt ::
  "Prompt list \<Rightarrow> string \<Rightarrow> PromptUpdate \<Rightarrow> timestamp \<Rightarrow> timestamp
     \<Rightarrow> Prompt list \<times> (error + Prompt)" where
  "update_prompt rows c u now t_hook =
     (case query_first rows c of
        None \<Rightarrow> (rows, Inl NotFound)
      | Some p \<Rightarrow>
          (let p' = (setattrs p u)\<lparr>updated_at := now\<rparr>;
               rows' = db_update rows p p' t_hook
           in (rows', db_refresh rows' (id_col p'))))"

text \<open>\<open>DELETE /prompts/{category}\<close>\<close>

definition delete_prompt ::
  "Prompt list \<Rightarrow> string \<Rightarrow> timestamp \<Rightarrow> timestamp \<Rightarrow> Prompt list \<times> (error + string)" where
  "delete_prompt rows c now t_hook =
     (case query_first rows c of
        None \<Rightarrow> (rows, Inl NotFound)
      | Some p \<Rightarrow>
          (db_update rows p (p\<lparr>is_active := Some False, updated_at := now\<rparr>) t_hook,
           Inr ''Prompt deactivated successfully''))"

text \<open>\<open>POST /prompts/{category}/activate\<close>\<close>

definition activate_prompt ::
  "Prompt list \<Rightarrow> string \<Rightarrow> timestamp \<Rightarrow> timestamp \<Rightarrow> Prompt list \<times> (error + string)" where
  "activate_prompt rows c now t_hook =
     (case query_first rows c of
        None \<Rightarrow> (rows, Inl NotFound)
      | Some p \<Rightarrow>
          (db_update rows p (p\<lparr>is_active := Some True, updated_at := now\<rparr>) t_hook,
           Inr ''Prompt activated successfully''))"

subsection \<open>Example rows and requests\<close>

definition example_row :: "int \<Rightarrow> string \<Rightarrow> bool option \<Rightarrow> Prompt" where
  "example_row i c a =
     \<lparr>id_col = i, category = c, title = Some ''T'', prompt = Some ''P'', is_active = a,
      created_at = 10, updated_at = 20\<rparr>"

definition example_create :: "string \<Rightarrow> PromptCreate" where
  "example_create c = \<lparr>pc_category = c, pc_title = ''T'', pc_prompt = ''P'', pc_is_active = None\<rparr>"

text \<open>Another writer that commits a row of category \<open>x\<close>.\<close>

definition example_writer :: "Prompt list \<Rightarrow> Prompt list" where
  "example_writer d = d @ [example_row 1 ''x'' (Some True)]"

section \<open>Facts about the storage layer\<close>

lemma max_id_ge: "r \<in> set rows \<Longrightarrow> id_col r \<le> max_id rows"
  by (induction rows) auto

lemma next_id_fresh: "next_id rows \<notin> set (map id_col rows)"
proof
  assume "next_id rows \<in> set (map id_col rows)"
  then obtain r where r: "r \<in> set rows" "id_col r = next_id rows" by auto
  from max_id_ge [OF r(1)] r(2) show False by (simp add: next_id_def)
qed

lemma find_append_last:
  "\<forall>r \<in> set rows. \<not> P r \<Longrightarrow> P x \<Longrightarrow> find P (rows @ [x]) = Some x"
  by (induction rows) auto

lemma query_first_None_iff:
  "query_first rows c = None \<longleftrightarrow> c \<notin> set (map category rows)"
  by (auto simp: query_first_def find_None_iff)

lemma query_first_SomeD:
  "query_first rows c = Some p \<Longrightarrow> p \<in> set rows \<and> category p = c"
  unfolding query_first_def by (induction rows) (auto split: if_splits)

lemma query_first_distinct:
  "distinct (map category rows) \<Longrightarrow> p \<in> set rows \<Longrightarrow> query_first rows (category p) = Some p"
  unfolding query_first_def by (induction rows) auto

lemma db_refresh_inserted:
  "id_col r = next_id rows \<Longrightarrow> db_refresh (rows @ [r]) (next_id rows) = Inr r"
proof -
  assume a: "id_col r = next_id rows"
  have "\<forall>x \<in> set rows. \<not> id_col x = next_id rows"
    using next_id_fresh [of rows] by (auto simp: image_iff)
  then have "find (\<lambda>x. id_col x = next_id rows) (rows @ [r]) = Some r"
    using a by (intro find_append_last) auto
  then show ?thesis by (simp add: db_refresh_def)
qed


lemma committed_row_keeps:
  "id_col (committed_row p q h) = id_col q" "category (committed_row p q h) = category q"
  "title (committed_row p q h) = title q" "prompt (committed_row p q h) = prompt q"
  "is_active (committed_row p q h) = is_active q" "created_at (committed_row p q h) = created_at q"
  by (simp_all add: committed_row_def)

lemma committed_row_updated_at:
  "updated_at (committed_row p q h)
     = (if updated_at q = updated_at p \<and> q \<noteq> p then h else updated_at q)"
  by (simp add: committed_row_def)

lemma db_update_replace:
  assumes "distinct (map id_col rows)" "p \<in> set rows" "id_col q = id_col p"
  shows "db_update rows p q h = map (\<lambda>r. if r = p then committed_row p q h else r) rows"
proof (cases "q = p")
  case True
  have m: "map (\<lambda>r. if r = p then p else r) rows = rows"
    by (induction rows) auto
  have c: "committed_row p q h = p" and d: "db_update rows p q h = rows"
    using True by (simp_all add: db_update_def committed_row_def)
  show ?thesis unfolding c d by (rule m [symmetric])
next
  case False
  have "map (\<lambda>r. if id_col r = id_col q then committed_row p q h else r) rows
      = map (\<lambda>r. if r = p then committed_row p q h else r) rows"
    using assms by (intro map_cong) (auto simp: distinct_map inj_on_def)
  with False show ?thesis by (simp add: db_update_def)
qed

lemma map_id_replace:
  "id_col s = id_col p \<Longrightarrow>
     map id_col (map (\<lambda>r. if r = p then s else r) rows) = map id_col rows"
  by (induction rows) auto

lemma map_category_replace:
  "category s = category p \<Longrightarrow>
     map category (map (\<lambda>r. if r = p then s else r) rows) = map category rows"
  by (induction rows) auto

lemma set_replace:
  "p \<in> set rows \<Longrightarrow> s \<in> set (map (\<lambda>r. if r = p then s else r) rows)"
  by (induction rows) auto

lemma wf_store_replace:
  assumes "wf_store rows" "id_col s = id_col p" "category s = category p"
  shows "wf_store (map (\<lambda>r. if r = p then s else r) rows)"
  unfolding wf_store_def map_id_replace [OF assms(2)] map_category_replace [OF assms(3)]
  using assms(1) by (simp only: wf_store_def)

lemma query_first_replace:
  assumes "wf_store rows" "p \<in> set rows" "id_col s = id_col p" "category s = category p"
  shows "query_first (map (\<lambda>r. if r = p then s else r) rows) (category p) = Some s"
proof -
  have "distinct (map category (map (\<lambda>r. if r = p then s else r) rows))"
    using wf_store_replace [OF assms(1,3,4)] by (simp only: wf_store_def)
  moreover have "s \<in> set (map (\<lambda>r. if r = p then s else r) rows)"
    using assms(2) by (rule set_replace)
  ultimately show ?thesis
    using query_first_distinct [of "map (\<lambda>r. if r = p then s else r) rows" s] assms(4)
    by simp
qed

lemma find_by_id_distinct:
  "distinct (map id_col rows) \<Longrightarrow> s \<in> set rows \<Longrightarrow> find (\<lambda>r. id_col r = id_col s) rows = Some s"
  by (induction rows) auto

lemma db_refresh_replace:
  assumes "wf_store rows" "p \<in> set rows" "id_col s = id_col p" "category s = category p"
  shows "db_refresh (map (\<lambda>r. if r = p then s else r) rows) (id_col p) = Inr s"
proof -
  have "distinct (map id_col (map (\<lambda>r. if r = p then s else r) rows))"
    using wf_store_replace [OF assms(1,3,4)] by (simp only: wf_store_def)
  moreover have "s \<in> set (map (\<lambda>r. if r = p then s else r) rows)"
    using assms(2) by (rule set_replace)
  ultimately have "find (\<lambda>r. id_col r = id_col s) (map (\<lambda>r. if r = p then s else r) rows) = Some s"
    by (rule find_by_id_distinct)
  then show ?thesis by (simp add: db_refresh_def assms(3))
qed

lemma replace_twice:
  assumes "distinct (map id_col rows)" "p \<in> set rows" "id_col s = id_col p"
  shows "map (\<lambda>r. if r = s then s' else r) (map (\<lambda>r. if r = p then s else r) rows)
      = map (\<lambda>r. if r = p then s' else r) rows"
proof -
  have "(if (if r = p then s else r) = s then s' else (if r = p then s else r))
      = (if r = p then s' else r)" if "r \<in> set rows" for r
    using that assms by (auto simp: distinct_map inj_on_def)
  then show ?thesis by (simp add: comp_def cong: map_cong)
qed

text \<open>
  A commit for the loaded row of a category, in a table that satisfies the schema's
  constraints: exactly that row is replaced by the committed one.
\<close>

lemma commit_found:
  assumes "wf_store rows" "query_first rows c = Some p"
    and "id_col q = id_col p" "category q = category p"
  shows "db_update rows p q h = map (\<lambda>r. if r = p then committed_row p q h else r) rows"
    and "wf_store (db_update rows p q h)"
    and "query_first (db_update rows p q h) c = Some (committed_row p q h)"
    and "db_refresh (db_update rows p q h) (id_col q) = Inr (committed_row p q h)"
proof -
  have mem: "p \<in> set rows" and cat: "category p = c"
    using query_first_SomeD [OF assms(2)] by simp_all
  have ids: "id_col (committed_row p q h) = id_col p"
    and cats: "category (committed_row p q h) = category p"
    using assms(3,4) by (simp_all add: committed_row_keeps)
  show eq: "db_update rows p q h = map (\<lambda>r. if r = p then committed_row p q h else r) rows"
    using assms(1,3) mem by (simp add: wf_store_def db_update_replace)
  show "wf_store (db_update rows p q h)"
    unfolding eq using assms(1) ids cats by (rule wf_store_replace)
  show "query_first (db_update rows p q h) c = Some (committed_row p q h)"
    unfolding eq using query_first_replace [OF assms(1) mem ids cats] cat by simp
  show "db_refresh (db_update rows p q h) (id_col q) = Inr (committed_row p q h)"
    unfolding eq using db_refresh_replace [OF assms(1) mem ids cats] assms(3) by simp
qed

lemma setattrs_keeps:
  "id_col (setattrs p u) = id_col p" "category (setattrs p u) = category p"
  "created_at (setattrs p u) = created_at p"
  by (simp_all add: setattrs_def)






lemma seeded_rows:
  "init_default_prompts [] clock =
     ([\<lparr>id_col = 1, category = ''roadmap'', title = Some ''Product Roadmap Analysis'',
        prompt = Some roadmap_body, is_active = Some True,
        created_at = clock 0, updated_at = clock 1\<rparr>,
       \<lparr>id_col = 2, category = ''vulnerabilities'',
        title = Some ''Security & Vulnerability Assessment'',
        prompt = Some vulnerabilities_body, is_active = Some True,
        created_at = clock 2, updated_at = clock 3\<rparr>,
       \<lparr>id_col = 3, category = ''teamAssignments'',
        title = Some ''Team Assignment Recommendations'',
        prompt = Some teamAssignments_body, is_active = Some True,
        created_at = clock 4, updated_at = clock 5\<rparr>,
       \<lparr>id_col = 4, category = ''newFeatures'', title = Some ''New Feature Suggestions'',
        prompt = Some newFeatures_body, is_active = Some True,
        created_at = clock 6, updated_at = clock 7\<rparr>,
       \<lparr>id_col = 5, category = ''technicalDebt'', title = Some ''Technical Debt Analysis'',
        prompt = Some technicalDebt_body, is_active = Some True,
        created_at = clock 8, updated_at = clock 9\<rparr>,
       \<lparr>id_col = 6, category = ''performance'', title = Some ''Performance Optimization'',
        prompt = Some performance_body, is_active = Some True,
        created_at = clock 10, updated_at = clock 11\<rparr>],
      [Print ''Default prompts initialized successfully!''])"
  by (simp add: init_default_prompts_def init_default_prompts_interleaved_def
      default_prompts_def db_insert_def next_id_def eval_nat_numeral)


lemma db_insert_Inl: "db_insert rows p t1 t2 = Inl e \<Longrightarrow> e = IntegrityError"
  by (auto simp: db_insert_def split: if_splits)

lemma flush_inserts_clash:
  "\<exists>c \<in> set (map new_category ps). c \<in> set (map category rows) \<Longrightarrow>
     flush_inserts rows ps clock k = Inl IntegrityError"
proof (induction ps arbitrary: rows k)
  case Nil
  then show ?case by simp
next
  case (Cons p ps)
  show ?case
  proof (cases "new_category p \<in> set (map category rows)")
    case True
    then show ?thesis by (simp add: db_insert_def)
  next
    case False
    define r where "r = \<lparr>id_col = next_id rows, category = new_category p,
        title = new_title p, prompt = new_prompt p,
        is_active = (case new_is_active p of None \<Rightarrow> Some True | Some b \<Rightarrow> Some b),
        created_at = clock k, updated_at = clock (k + 1)\<rparr>"
    have ins: "db_insert rows p (clock k) (clock (k + 1)) = Inr (rows @ [r], next_id rows)"
      using False by (simp add: db_insert_def r_def)
    from Cons.prems False
    have "\<exists>c \<in> set (map new_category ps). c \<in> set (map category (rows @ [r]))"
      by auto
    then have "flush_inserts (rows @ [r]) ps clock (k + 2) = Inl IntegrityError"
      by (rule Cons.IH)
    with ins show ?thesis by simp
  qed
qed


lemma create_prompt_new:
  "query_first rows (pc_category req) = None \<Longrightarrow>
     create_prompt rows req t1 t2 =
       (rows @ [\<lparr>id_col = next_id rows, category = pc_category req,
                 title = Some (pc_title req), prompt = Some (pc_prompt req),
                 is_active = Some (case pc_is_active req of None \<Rightarrow> True | Some b \<Rightarrow> b),
                 created_at = t1, updated_at = t2\<rparr>],
        Inr \<lparr>id_col = next_id rows, category = pc_category req,
             title = Some (pc_title req), prompt = Some (pc_prompt req),
             is_active = Some (case pc_is_active req of None \<Rightarrow> True | Some b \<Rightarrow> b),
             created_at = t1, updated_at = t2\<rparr>)"
proof -
  assume none: "query_first rows (pc_category req) = None"
  then have "pc_category req \<notin> set (map category rows)"
    by (simp add: query_first_None_iff)
  with none show ?thesis
    by (simp add: create_prompt_def create_prompt_interleaved_def db_insert_def
        Prompt_of_create_def db_refresh_inserted)
qed

lemma create_prompt_existing:
  "query_first rows (pc_category req) = Some p \<Longrightarrow>
     create_prompt_interleaved concurrent rows req t1 t2 = (rows, Inl Conflict)"
  by (simp add: create_prompt_interleaved_def)

lemma deactivate_row:
  "committed_row p (p\<lparr>is_active := Some False, updated_at := now\<rparr>) h
     = p\<lparr>is_active := Some False,
         updated_at := (if now = updated_at p \<and> is_active p \<noteq> Some False then h else now)\<rparr>"
  by (cases p) (auto simp: committed_row_def)

lemma activate_row:
  "committed_row p (p\<lparr>is_active := Some True, updated_at := now\<rparr>) h
     = p\<lparr>is_active := Some True,
         updated_at := (if now = updated_at p \<and> is_active p \<noteq> Some True then h else now)\<rparr>"
  by (cases p) (auto simp: committed_row_def)

lemma delete_prompt_found:
  assumes "wf_store rows" "query_first rows c = Some p"
  shows "delete_prompt rows c now h
      = (map (\<lambda>r. if r = p
            then p\<lparr>is_active := Some False,
                   updated_at := (if now = updated_at p \<and> is_active p \<noteq> Some False then h else now)\<rparr>
            else r) rows,
         Inr ''Prompt deactivated successfully'')"
    and "wf_store (fst (delete_prompt rows c now h))"
    and "query_first (fst (delete_prompt rows c now h)) c
      = Some (p\<lparr>is_active := Some False,
                 updated_at := (if now = updated_at p \<and> is_active p \<noteq> Some False then h else now)\<rparr>)"
proof -
  note cf = commit_found [OF assms, of "p\<lparr>is_active := Some False, updated_at := now\<rparr>" h,
      simplified, unfolded deactivate_row]
  have d: "delete_prompt rows c now h
      = (db_update rows p (p\<lparr>is_active := Some False, updated_at := now\<rparr>) h,
         Inr ''Prompt deactivated successfully'')"
    using assms(2) by (simp add: delete_prompt_def)
  show "delete_prompt rows c now h
      = (map (\<lambda>r. if r = p
            then p\<lparr>is_active := Some False,
                   updated_at := (if now = updated_at p \<and> is_active p \<noteq> Some False then h else now)\<rparr>
            else r) rows,
         Inr ''Prompt deactivated successfully'')"
    unfolding d cf(1) ..
  show "wf_store (fst (delete_prompt rows c now h))"
    unfolding d using cf(2) by simp
  show "query_first (fst (delete_prompt rows c now h)) c
      = Some (p\<lparr>is_active := Some False,
                 updated_at := (if now = updated_at p \<and> is_active p \<noteq> Some False then h else now)\<rparr>)"
    unfolding d using cf(3) by simp
qed

lemma activate_prompt_found:
  assumes "wf_store rows" "query_first rows c = Some p"
  shows "activate_prompt rows c now h
      = (map (\<lambda>r. if r = p
            then p\<lparr>is_active := Some True,
                   updated_at := (if now = updated_at p \<and> is_active p \<noteq> Some True then h else now)\<rparr>
            else r) rows,
         Inr ''Prompt activated successfully'')"
    and "wf_store (fst (activate_prompt rows c now h))"
    and "query_first (fst (activate_prompt rows c now h)) c
      = Some (p\<lparr>is_active := Some True,
                 updated_at := (if now = updated_at p \<and> is_active p \<noteq> Some True then h else now)\<rparr>)"
proof -
  note cf = commit_found [OF assms, of "p\<lparr>is_active := Some True, updated_at := now\<rparr>" h,
      simplified, unfolded activate_row]
  have d: "activate_prompt rows c now h
      = (db_update rows p (p\<lparr>is_active := Some True, updated_at := now\<rparr>) h,
         Inr ''Prompt activated successfully'')"
    using assms(2) by (simp add: activate_prompt_def)
  show "activate_prompt rows c now h
      = (map (\<lambda>r. if r = p
            then p\<lparr>is_active := Some True,
                   updated_at := (if now = updated_at p \<and> is_active p \<noteq> Some True then h else now)\<rparr>
            else r) rows,
         Inr ''Prompt activated successfully'')"
    unfolding d cf(1) ..
  show "wf_store (fst (activate_prompt rows c now h))"
    unfolding d using cf(2) by simp
  show "query_first (fst (activate_prompt rows c now h)) c
      = Some (p\<lparr>is_active := Some True,
                 updated_at := (if now = updated_at p \<and> is_active p \<noteq> Some True then h else now)\<rparr>)"
    unfolding d using cf(3) by simp
qed

text \<open>
  Every handler and the seeding keep the constraints of the schema, so every table that
  the service reaches from an empty one satisfies them.
\<close>

lemma wf_store_db_insert:
  "wf_store rows \<Longrightarrow> db_insert rows p t1 t2 = Inr (rows', i) \<Longrightarrow> wf_store rows'"
  using next_id_fresh [of rows]
  by (auto simp: db_insert_def wf_store_def split: if_splits)

lemma wf_store_create_prompt:
  "wf_store rows \<Longrightarrow> wf_store (fst (create_prompt rows req t1 t2))"
proof (cases "query_first rows (pc_category req)")
  case None
  assume wf: "wf_store rows"
  from None have "pc_category req \<notin> set (map category rows)"
    by (simp add: query_first_None_iff)
  with wf next_id_fresh [of rows] show ?thesis
    by (simp add: create_prompt_new [OF None] wf_store_def)
next
  case (Some p)
  assume "wf_store rows"
  then show ?thesis
    by (simp add: create_prompt_def create_prompt_existing [OF Some])
qed

lemma wf_store_update_prompt:
  "wf_store rows \<Longrightarrow> wf_store (fst (update_prompt rows c u now h))"
proof (cases "query_first rows c")
  case None
  assume "wf_store rows"
  with None show ?thesis by (simp add: update_prompt_def)
next
  case (Some p)
  assume wf: "wf_store rows"
  have "wf_store (db_update rows p ((setattrs p u)\<lparr>updated_at := now\<rparr>) h)"
    using commit_found(2) [OF wf Some, of "(setattrs p u)\<lparr>updated_at := now\<rparr>"]
    by (simp add: setattrs_keeps)
  with Some show ?thesis by (simp add: update_prompt_def Let_def)
qed

lemma wf_store_delete_prompt:
  "wf_store rows \<Longrightarrow> wf_store (fst (delete_prompt rows c now h))"
proof (cases "query_first rows c")
  case None
  assume "wf_store rows"
  with None show ?thesis by (simp add: delete_prompt_def)
next
  case (Some p)
  assume wf: "wf_store rows"
  have "wf_store (db_update rows p (p\<lparr>is_active := Some False, updated_at := now\<rparr>) h)"
    using commit_found(2) [OF wf Some, of "p\<lparr>is_active := Some False, updated_at := now\<rparr>"]
    by simp
  with Some show ?thesis by (simp add: delete_prompt_def)
qed

lemma wf_store_activate_prompt:
  "wf_store rows \<Longrightarrow> wf_store (fst (activate_prompt rows c now h))"
proof (cases "query_first rows c")
  case None
  assume "wf_store rows"
  with None show ?thesis by (simp add: activate_prompt_def)
next
  case (Some p)
  assume wf: "wf_store rows"
  have "wf_store (db_update rows p (p\<lparr>is_active := Some True, updated_at := now\<rparr>) h)"
    using commit_found(2) [OF wf Some, of "p\<lparr>is_active := Some True, updated_at := now\<rparr>"]
    by simp
  with Some show ?thesis by (simp add: activate_prompt_def)
qed

lemma wf_store_seeded: "wf_store (fst (init_default_prompts [] clock))"
  by (simp add: seeded_rows wf_store_def)

section \<open>Create\<close>

text \<open>
  Claim C1. A create request whose category is already the category of a stored row,
  active or not, fails with Conflict (status 400) and the table stays as it was. A create
  request with a new category succeeds: the row gets the next id, which no stored row has,
  and its two timestamps, it is appended to the table, and the handler returns it in full.
  A table without two rows of one category is still one after the call.
\<close>

theorem create_prompt_conflict_or_persist:
  "(pc_category req \<in> set (map category rows) \<longrightarrow>
      create_prompt rows req t1 t2 = (rows, Inl Conflict))
   \<and> (pc_category req \<notin> set (map category rows) \<longrightarrow>
        (let r = \<lparr>id_col = next_id rows,
                   category = pc_category req,
                   title = Some (pc_title req),
                   prompt = Some (pc_prompt req),
                   is_active = Some (case pc_is_active req of None \<Rightarrow> True | Some b \<Rightarrow> b),
                   created_at = t1,
                   updated_at = t2\<rparr>
         in create_prompt rows req t1 t2 = (rows @ [r], Inr r)
            \<and> id_col r \<notin> set (map id_col rows)))
   \<and> (distinct (map category rows) \<longrightarrow>
        distinct (map category (fst (create_prompt rows req t1 t2))))"
proof (cases "query_first rows (pc_category req)")
  case None
  then have fresh: "pc_category req \<notin> set (map category rows)"
    by (simp add: query_first_None_iff)
  show ?thesis
    using None fresh next_id_fresh [of rows]
    by (simp add: create_prompt_def create_prompt_interleaved_def db_insert_def
        Prompt_of_create_def db_refresh_inserted Let_def)
next
  case (Some p)
  then have "pc_category req \<in> set (map category rows)"
    using query_first_None_iff [of rows "pc_category req"] by auto
  then show ?thesis
    using Some by (simp add: create_prompt_def create_prompt_interleaved_def)
qed

theorem create_prompt_conflict_or_persist_witness:
  "''x'' \<in> set (map category [example_row 1 ''x'' (Some False)])
   \<and> create_prompt [example_row 1 ''x'' (Some False)] (example_create ''x'') 30 31
       = ([example_row 1 ''x'' (Some False)], Inl Conflict)
   \<and> ''y'' \<notin> set (map category [example_row 1 ''x'' (Some False)])
   \<and> create_prompt [example_row 1 ''x'' (Some False)] (example_create ''y'') 30 31
       = ([example_row 1 ''x'' (Some False),
           \<lparr>id_col = 2, category = ''y'', title = Some ''T'', prompt = Some ''P'',
            is_active = Some True, created_at = 30, updated_at = 31\<rparr>],
          Inr \<lparr>id_col = 2, category = ''y'', title = Some ''T'', prompt = Some ''P'',
               is_active = Some True, created_at = 30, updated_at = 31\<rparr>)
   \<and> distinct (map category [example_row 1 ''x'' (Some False)])
   \<and> distinct (map category
        (fst (create_prompt [example_row 1 ''x'' (Some False)] (example_create ''y'') 30 31)))"
  using create_prompt_conflict_or_persist
          [of "example_create ''x''" "[example_row 1 ''x'' (Some False)]" 30 31]
        create_prompt_conflict_or_persist
          [of "example_create ''y''" "[example_row 1 ''x'' (Some False)]" 30 31]
  by (simp add: example_row_def example_create_def next_id_def Let_def)

section \<open>Update\<close>

text \<open>
  Claim C2. An update on a category that no row has fails with NotFound (status 404) and
  changes nothing. On an existing category, in a table that satisfies the schema's
  constraints, the row of that category is replaced by a row in which each of \<open>title\<close>,
  \<open>prompt\<close>, \<open>is_active\<close> that the body supplies has the supplied value and each one it
  omits has its prior value; \<open>id\<close>, \<open>category\<close> and \<open>created_at\<close> are the prior ones.
  \<open>updated_at\<close> is a clock reading of this call: the handler's own, also for an empty
  body, except when the handler's reading equals the stored value while a supplied field
  changes the row; then the \<open>onupdate\<close> hook stores its reading. All other rows are
  untouched, the row is still found under the same category, and the handler returns it.
\<close>

theorem update_prompt_partial:
  "(query_first rows c = None \<longrightarrow> update_prompt rows c u now t_hook = (rows, Inl NotFound))
   \<and> (wf_store rows \<longrightarrow>
       (\<forall>p. query_first rows c = Some p \<longrightarrow>
          (let p' = \<lparr>id_col = id_col p,
                      category = category p,
                      title = (case pu_title u of None \<Rightarrow> title p | Some v \<Rightarrow> v),
                      prompt = (case pu_prompt u of None \<Rightarrow> prompt p | Some v \<Rightarrow> v),
                      is_active = (case pu_is_active u of None \<Rightarrow> is_active p | Some v \<Rightarrow> v),
                      created_at = created_at p,
                      updated_at =
                        (if now = updated_at p \<and> setattrs p u \<noteq> p then t_hook else now)\<rparr>
           in update_prompt rows c u now t_hook
                = (map (\<lambda>r. if r = p then p' else r) rows, Inr p')
              \<and> query_first (fst (update_prompt rows c u now t_hook)) c = Some p'
              \<and> category p' = c
              \<and> (pu_title u = None \<and> pu_prompt u = None \<and> pu_is_active u = None \<longrightarrow>
                   p' = p\<lparr>updated_at := now\<rparr>))))"
proof (intro conjI impI allI)
  assume "query_first rows c = None"
  then show "update_prompt rows c u now t_hook = (rows, Inl NotFound)"
    by (simp add: update_prompt_def)
next
  fix p
  assume wf: "wf_store rows" and q: "query_first rows c = Some p"
  define q' where "q' = (setattrs p u)\<lparr>updated_at := now\<rparr>"
  define p' where "p' = committed_row p q' t_hook"
  have cat: "category p = c"
    using query_first_SomeD [OF q] by simp
  have ids: "id_col q' = id_col p" and cats: "category q' = category p"
    by (simp_all add: q'_def setattrs_def)
  have same: "q' = p \<longleftrightarrow> setattrs p u = p \<and> now = updated_at p"
    by (cases p) (auto simp: q'_def setattrs_def)
  have expl: "p' = \<lparr>id_col = id_col p,
                      category = category p,
                      title = (case pu_title u of None \<Rightarrow> title p | Some v \<Rightarrow> v),
                      prompt = (case pu_prompt u of None \<Rightarrow> prompt p | Some v \<Rightarrow> v),
                      is_active = (case pu_is_active u of None \<Rightarrow> is_active p | Some v \<Rightarrow> v),
                      created_at = created_at p,
                      updated_at =
                        (if now = updated_at p \<and> setattrs p u \<noteq> p then t_hook else now)\<rparr>"
  proof (cases "q' = p")
    case True
    then have "setattrs p u = p" "now = updated_at p" using same by simp_all
    moreover have "p' = p" using True by (simp add: p'_def committed_row_def)
    moreover have "setattrs p u = \<lparr>id_col = id_col p,
                      category = category p,
                      title = (case pu_title u of None \<Rightarrow> title p | Some v \<Rightarrow> v),
                      prompt = (case pu_prompt u of None \<Rightarrow> prompt p | Some v \<Rightarrow> v),
                      is_active = (case pu_is_active u of None \<Rightarrow> is_active p | Some v \<Rightarrow> v),
                      created_at = created_at p,
                      updated_at = updated_at p\<rparr>"
      by (simp add: setattrs_def)
    ultimately show ?thesis by simp
  next
    case False
    have c: "(now = updated_at p \<and> setattrs p u \<noteq> p) \<longleftrightarrow> now = updated_at p"
      using same False by blast
    have uq: "updated_at q' = now"
      by (simp add: q'_def)
    have pq: "p' = (if now = updated_at p then q'\<lparr>updated_at := t_hook\<rparr> else q')"
      using False by (simp add: p'_def committed_row_def uq)
    have qexpl: "q' = \<lparr>id_col = id_col p,
                      category = category p,
                      title = (case pu_title u of None \<Rightarrow> title p | Some v \<Rightarrow> v),
                      prompt = (case pu_prompt u of None \<Rightarrow> prompt p | Some v \<Rightarrow> v),
                      is_active = (case pu_is_active u of None \<Rightarrow> is_active p | Some v \<Rightarrow> v),
                      created_at = created_at p,
                      updated_at = now\<rparr>"
      by (simp add: q'_def setattrs_def)
    show ?thesis unfolding c pq qexpl by simp
  qed
  have upd: "update_prompt rows c u now t_hook
      = (db_update rows p q' t_hook, db_refresh (db_update rows p q' t_hook) (id_col q'))"
    using q by (simp add: update_prompt_def q'_def Let_def)
  note cf = commit_found [OF wf q ids cats, of t_hook, folded p'_def]
  have empty: "p' = p\<lparr>updated_at := now\<rparr>"
    if "pu_title u = None \<and> pu_prompt u = None \<and> pu_is_active u = None"
    using that unfolding expl by (cases p) (simp add: setattrs_def)
  have cp: "category p' = c"
    using cat by (simp add: p'_def committed_row_keeps cats)
  show "let p' = \<lparr>id_col = id_col p,
                      category = category p,
                      title = (case pu_title u of None \<Rightarrow> title p | Some v \<Rightarrow> v),
                      prompt = (case pu_prompt u of None \<Rightarrow> prompt p | Some v \<Rightarrow> v),
                      is_active = (case pu_is_active u of None \<Rightarrow> is_active p | Some v \<Rightarrow> v),
                      created_at = created_at p,
                      updated_at =
                        (if now = updated_at p \<and> setattrs p u \<noteq> p then t_hook else now)\<rparr>
           in update_prompt rows c u now t_hook
                = (map (\<lambda>r. if r = p then p' else r) rows, Inr p')
              \<and> query_first (fst (update_prompt rows c u now t_hook)) c = Some p'
              \<and> category p' = c
              \<and> (pu_title u = None \<and> pu_prompt u = None \<and> pu_is_active u = None \<longrightarrow>
                   p' = p\<lparr>updated_at := now\<rparr>)"
    unfolding Let_def expl [symmetric]
    using upd cf(1,3,4) cp empty by simp
qed

theorem update_prompt_partial_witness:
  "query_first [example_row 1 ''x'' (Some True)] ''y'' = None
   \<and> update_prompt [example_row 1 ''x'' (Some True)] ''y''
        \<lparr>pu_title = Some (Some ''T2''), pu_prompt = None, pu_is_active = None\<rparr> 40 41
       = ([example_row 1 ''x'' (Some True)], Inl NotFound)
   \<and> wf_store [example_row 1 ''x'' (Some True), example_row 2 ''z'' (Some False)]
   \<and> query_first [example_row 1 ''x'' (Some True), example_row 2 ''z'' (Some False)] ''x''
       = Some (example_row 1 ''x'' (Some True))
   \<and> update_prompt [example_row 1 ''x'' (Some True), example_row 2 ''z'' (Some False)] ''x''
        \<lparr>pu_title = Some (Some ''T2''), pu_prompt = None, pu_is_active = None\<rparr> 40 41
       = ([\<lparr>id_col = 1, category = ''x'', title = Some ''T2'', prompt = Some ''P'',
            is_active = Some True, created_at = 10, updated_at = 40\<rparr>,
           example_row 2 ''z'' (Some False)],
          Inr \<lparr>id_col = 1, category = ''x'', title = Some ''T2'', prompt = Some ''P'',
               is_active = Some True, created_at = 10, updated_at = 40\<rparr>)
   \<and> update_prompt [example_row 1 ''x'' (Some True), example_row 2 ''z'' (Some False)] ''x''
        \<lparr>pu_title = Some (Some ''T2''), pu_prompt = None, pu_is_active = None\<rparr> 20 21
       = ([\<lparr>id_col = 1, category = ''x'', title = Some ''T2'', prompt = Some ''P'',
            is_active = Some True, created_at = 10, updated_at = 21\<rparr>,
           example_row 2 ''z'' (Some False)],
          Inr \<lparr>id_col = 1, category = ''x'', title = Some ''T2'', prompt = Some ''P'',
               is_active = Some True, created_at = 10, updated_at = 21\<rparr>)
   \<and> update_prompt [example_row 1 ''x'' (Some True), example_row 2 ''z'' (Some False)] ''x''
        \<lparr>pu_title = None, pu_prompt = None, pu_is_active = None\<rparr> 40 41
       = ([(example_row 1 ''x'' (Some True))\<lparr>updated_at := 40\<rparr>,
           example_row 2 ''z'' (Some False)],
          Inr ((example_row 1 ''x'' (Some True))\<lparr>updated_at := 40\<rparr>))"
  using update_prompt_partial
          [of "[example_row 1 ''x'' (Some True)]" "''y''"
              "\<lparr>pu_title = Some (Some ''T2''), pu_prompt = None, pu_is_active = None\<rparr>" 40 41]
        update_prompt_partial
          [of "[example_row 1 ''x'' (Some True), example_row 2 ''z'' (Some False)]" "''x''"
              "\<lparr>pu_title = Some (Some ''T2''), pu_prompt = None, pu_is_active = None\<rparr>" 40 41]
        update_prompt_partial
          [of "[example_row 1 ''x'' (Some True), example_row 2 ''z'' (Some False)]" "''x''"
              "\<lparr>pu_title = Some (Some ''T2''), pu_prompt = None, pu_is_active = None\<rparr>" 20 21]
        update_prompt_partial
          [of "[example_row 1 ''x'' (Some True), example_row 2 ''z'' (Some False)]" "''x''"
              "\<lparr>pu_title = None, pu_prompt = None, pu_is_active = None\<rparr>" 40 41]
  by (simp add: example_row_def query_first_def wf_store_def Let_def setattrs_def)

section \<open>Seeding\<close>

text \<open>
  Claim C3. Startup seeding on a table without rows leaves exactly six rows, whose
  categories are \<open>roadmap\<close>, \<open>vulnerabilities\<close>, \<open>teamAssignments\<close>, \<open>newFeatures\<close>,
  \<open>technicalDebt\<close> and \<open>performance\<close>. On a table with at least one row, whatever its
  category and whether it is active or not, seeding changes nothing and prints nothing.
\<close>

theorem seeding_on_empty_and_nonempty:
  "(rows = [] \<longrightarrow>
      length (fst (init_default_prompts rows clock)) = 6
      \<and> map category (fst (init_default_prompts rows clock))
          = [''roadmap'', ''vulnerabilities'', ''teamAssignments'', ''newFeatures'',
             ''technicalDebt'', ''performance''])
   \<and> (rows \<noteq> [] \<longrightarrow> init_default_prompts rows clock = (rows, []))"
proof (intro conjI impI)
  assume "rows = []"
  then show "length (fst (init_default_prompts rows clock)) = 6"
    by (simp add: seeded_rows)
next
  assume "rows = []"
  then show "map category (fst (init_default_prompts rows clock))
          = [''roadmap'', ''vulnerabilities'', ''teamAssignments'', ''newFeatures'',
             ''technicalDebt'', ''performance'']"
    by (simp add: seeded_rows)
next
  assume "rows \<noteq> []"
  then show "init_default_prompts rows clock = (rows, [])"
    by (simp add: init_default_prompts_def init_default_prompts_interleaved_def)
qed

theorem seeding_on_empty_and_nonempty_witness:
  "length (fst (init_default_prompts [] (\<lambda>k. 100 + k))) = 6
   \<and> map category (fst (init_default_prompts [] (\<lambda>k. 100 + k)))
       = [''roadmap'', ''vulnerabilities'', ''teamAssignments'', ''newFeatures'',
          ''technicalDebt'', ''performance'']
   \<and> [example_row 7 ''x'' (Some False)] \<noteq> []
   \<and> init_default_prompts [example_row 7 ''x'' (Some False)] (\<lambda>k. 100 + k)
       = ([example_row 7 ''x'' (Some False)], [])"
  using seeding_on_empty_and_nonempty [of "[]" "\<lambda>k. 100 + k"]
        seeding_on_empty_and_nonempty [of "[example_row 7 ''x'' (Some False)]" "\<lambda>k. 100 + k"]
  by simp

section \<open>Listing\<close>



section \<open>Deactivate, then activate\<close>

text \<open>
  Claim C5, as amended. In a table that satisfies the schema's constraints, for a stored
  row that is active, deactivate followed by activate on its category both succeed and
  leave a table that differs from the first one only in that row's \<open>updated_at\<close>. The new
  \<open>updated_at\<close> is a clock reading of the activate call: the handler's own, or the
  \<open>onupdate\<close> hook's when the handler's equals the value that deactivate stored. It is
  greater than before whenever both readings of the activate call are later than the
  row's prior \<open>updated_at\<close>.
\<close>

theorem deactivate_then_activate_restores:
  "wf_store rows \<Longrightarrow> query_first rows c = Some p \<Longrightarrow> is_active p = Some True \<Longrightarrow>
     (let u1 = (if n1 = updated_at p then h1 else n1);
          u2 = (if n2 = u1 then h2 else n2);
          rows2 = fst (activate_prompt (fst (delete_prompt rows c n1 h1)) c n2 h2)
      in snd (delete_prompt rows c n1 h1) = Inr ''Prompt deactivated successfully''
         \<and> snd (activate_prompt (fst (delete_prompt rows c n1 h1)) c n2 h2)
             = Inr ''Prompt activated successfully''
         \<and> rows2 = map (\<lambda>r. if r = p then p\<lparr>updated_at := u2\<rparr> else r) rows
         \<and> query_first rows2 c = Some (p\<lparr>updated_at := u2\<rparr>)
         \<and> (updated_at p < n2 \<and> updated_at p < h2 \<longrightarrow> updated_at p < u2))"
proof -
  assume wf: "wf_store rows" and q: "query_first rows c = Some p"
    and act: "is_active p = Some True"
  define u1 where "u1 = (if n1 = updated_at p then h1 else n1)"
  define u2 where "u2 = (if n2 = u1 then h2 else n2)"
  define s1 where "s1 = p\<lparr>is_active := Some False, updated_at := u1\<rparr>"
  define rows1 where "rows1 = fst (delete_prompt rows c n1 h1)"
  define rows2 where "rows2 = fst (activate_prompt rows1 c n2 h2)"
  have mem: "p \<in> set rows"
    using query_first_SomeD [OF q] by simp
  have s1: "p\<lparr>is_active := Some False,
        updated_at := (if n1 = updated_at p \<and> is_active p \<noteq> Some False then h1 else n1)\<rparr> = s1"
    using act by (simp add: s1_def u1_def)
  have d: "delete_prompt rows c n1 h1
      = (map (\<lambda>r. if r = p then s1 else r) rows, Inr ''Prompt deactivated successfully'')"
    and wf1: "wf_store rows1" and q1: "query_first rows1 c = Some s1"
    using delete_prompt_found [OF wf q, of n1 h1] unfolding s1 rows1_def by simp_all
  have r1: "rows1 = map (\<lambda>r. if r = p then s1 else r) rows"
    using d by (simp add: rows1_def)
  have s2: "s1\<lparr>is_active := Some True,
        updated_at := (if n2 = updated_at s1 \<and> is_active s1 \<noteq> Some True then h2 else n2)\<rparr>
      = p\<lparr>updated_at := u2\<rparr>"
    using act by (cases p) (simp add: s1_def u2_def)
  have a: "activate_prompt rows1 c n2 h2
      = (map (\<lambda>r. if r = s1 then p\<lparr>updated_at := u2\<rparr> else r) rows1,
         Inr ''Prompt activated successfully'')"
    using activate_prompt_found(1) [OF wf1 q1, of n2 h2] unfolding s2 .
  have tw: "map (\<lambda>r. if r = s1 then p\<lparr>updated_at := u2\<rparr> else r)
        (map (\<lambda>r. if r = p then s1 else r) rows)
      = map (\<lambda>r. if r = p then p\<lparr>updated_at := u2\<rparr> else r) rows"
    using wf mem by (intro replace_twice) (simp_all add: wf_store_def s1_def)
  have r2: "rows2 = map (\<lambda>r. if r = p then p\<lparr>updated_at := u2\<rparr> else r) rows"
    using a tw by (simp add: rows2_def r1)
  have q2: "query_first rows2 c = Some (p\<lparr>updated_at := u2\<rparr>)"
    using query_first_replace [OF wf mem, of "p\<lparr>updated_at := u2\<rparr>"] query_first_SomeD [OF q]
    unfolding r2 by simp
  have lt: "updated_at p < n2 \<and> updated_at p < h2 \<longrightarrow> updated_at p < u2"
    by (simp add: u2_def)
  show ?thesis
    unfolding Let_def u1_def [symmetric] u2_def [symmetric] rows1_def [symmetric]
      rows2_def [symmetric]
    using d a r2 q2 lt by (simp add: rows1_def)
qed

theorem deactivate_then_activate_restores_witness:
  "wf_store [example_row 1 ''x'' (Some True), example_row 2 ''z'' (Some False)]
   \<and> query_first [example_row 1 ''x'' (Some True), example_row 2 ''z'' (Some False)] ''x''
       = Some (example_row 1 ''x'' (Some True))
   \<and> is_active (example_row 1 ''x'' (Some True)) = Some True
   \<and> fst (activate_prompt (fst (delete_prompt
        [example_row 1 ''x'' (Some True), example_row 2 ''z'' (Some False)] ''x'' 30 31)) ''x'' 40 41)
       = [(example_row 1 ''x'' (Some True))\<lparr>updated_at := 40\<rparr>, example_row 2 ''z'' (Some False)]
   \<and> fst (activate_prompt (fst (delete_prompt
        [example_row 1 ''x'' (Some True), example_row 2 ''z'' (Some False)] ''x'' 30 31)) ''x'' 30 32)
       = [(example_row 1 ''x'' (Some True))\<lparr>updated_at := 32\<rparr>, example_row 2 ''z'' (Some False)]
   \<and> updated_at (example_row 1 ''x'' (Some True)) < 40"
proof -
  have wf: "wf_store [example_row 1 ''x'' (Some True), example_row 2 ''z'' (Some False)]"
    by (simp add: wf_store_def example_row_def)
  have q: "query_first [example_row 1 ''x'' (Some True), example_row 2 ''z'' (Some False)] ''x''
       = Some (example_row 1 ''x'' (Some True))"
    by (simp add: query_first_def example_row_def)
  have act: "is_active (example_row 1 ''x'' (Some True)) = Some True"
    by (simp add: example_row_def)
  show ?thesis
    using wf q act deactivate_then_activate_restores [OF wf q act, of 30 31 40 41]
      deactivate_then_activate_restores [OF wf q act, of 30 31 30 32]
    by (simp add: example_row_def Let_def)
qed

text \<open>
  The claim as stated speaks of every stored row and of a strict increase. A row that
  was inactive comes back active, and the handlers store whatever \<open>datetime.utcnow\<close>
  reads: with a clock that reads 15 to 18 for a row last updated at 20 the new
  \<open>updated_at\<close> is smaller.
\<close>

theorem deactivate_then_activate_counterexample:
  "is_active (example_row 1 ''x'' (Some False)) = Some False
   \<and> fst (activate_prompt (fst (delete_prompt [example_row 1 ''x'' (Some False)] ''x'' 30 31))
          ''x'' 40 41)
       = [\<lparr>id_col = 1, category = ''x'', title = Some ''T'', prompt = Some ''P'',
           is_active = Some True, created_at = 10, updated_at = 40\<rparr>]
   \<and> updated_at (example_row 1 ''x'' (Some True)) = 20
   \<and> fst (activate_prompt (fst (delete_prompt [example_row 1 ''x'' (Some True)] ''x'' 15 16))
          ''x'' 17 18)
       = [\<lparr>id_col = 1, category = ''x'', title = Some ''T'', prompt = Some ''P'',
           is_active = Some True, created_at = 10, updated_at = 17\<rparr>]"
  by (simp add: example_row_def query_first_def delete_prompt_def activate_prompt_def
      db_update_def committed_row_def)

section \<open>Create against a concurrent writer\<close>

text \<open>
  Claim C6, as amended. When the existence query of a create finds no row of the category
  and another writer commits a row of that category before the handler's commit, the
  insert fails on the unique index and the handler does not catch the error: it raises
  \<open>IntegrityError\<close>, which is not the Conflict exception, and the table is what the other
  writer left, without a row of this request.
\<close>

theorem create_prompt_race_unhandled:
  "query_first rows (pc_category req) = None \<Longrightarrow>
   pc_category req \<in> set (map category (concurrent rows)) \<Longrightarrow>
     db_insert (concurrent rows) (Prompt_of_create req) t1 t2 = Inl IntegrityError
     \<and> create_prompt_interleaved concurrent rows req t1 t2 = (concurrent rows, Inl IntegrityError)
     \<and> IntegrityError \<noteq> Conflict"
  by (simp add: create_prompt_interleaved_def db_insert_def Prompt_of_create_def Conflict_def)

theorem create_prompt_race_unhandled_witness:
  "query_first [] (pc_category (example_create ''x'')) = None
   \<and> pc_category (example_create ''x'') \<in> set (map category (example_writer []))
   \<and> create_prompt_interleaved example_writer [] (example_create ''x'') 30 31
       = ([example_row 1 ''x'' (Some True)], Inl IntegrityError)"
proof -
  have h1: "query_first [] (pc_category (example_create ''x'')) = None"
    by (simp add: query_first_def)
  have h2: "pc_category (example_create ''x'') \<in> set (map category (example_writer []))"
    by (simp add: example_create_def example_row_def example_writer_def)
  show ?thesis
    using h1 h2
      create_prompt_race_unhandled
        [where rows = "[]" and req = "example_create ''x''" and concurrent = example_writer
           and ?t1.0 = 30 and ?t2.0 = 31]
    by (simp add: example_writer_def)
qed

text \<open>
  The claim as stated expects Conflict here: on an empty table, with a concurrent insert
  of category \<open>x\<close>, the create of \<open>x\<close> raises \<open>IntegrityError\<close>.
\<close>

theorem create_prompt_race_counterexample:
  "query_first [] (pc_category (example_create ''x'')) = None
   \<and> db_insert (example_writer []) (Prompt_of_create (example_create ''x'')) 30 31
       = Inl IntegrityError
   \<and> create_prompt_interleaved example_writer [] (example_create ''x'') 30 31
       = ([example_row 1 ''x'' (Some True)], Inl IntegrityError)
   \<and> snd (create_prompt_interleaved example_writer [] (example_create ''x'') 30 31)
       \<noteq> Inl Conflict"
  by (simp add: create_prompt_interleaved_def query_first_def db_insert_def Prompt_of_create_def
      example_create_def example_row_def example_writer_def Conflict_def)

section \<open>The record that create returns\<close>

text \<open>
  Claim C7, as amended. For every create request that succeeds, the returned row is the
  one appended to the table; its id is the next id, which no row had before; its
  \<open>is_active\<close> is true when the body omits the flag; \<open>created_at\<close> and \<open>updated_at\<close> are
  the two clock readings that the two column defaults take, hence equal exactly when these
  two readings are equal.
\<close>

theorem create_prompt_returned_record:
  "snd (create_prompt rows req t1 t2) = Inr r \<Longrightarrow>
     fst (create_prompt rows req t1 t2) = rows @ [r]
     \<and> id_col r = next_id rows
     \<and> id_col r \<notin> set (map id_col rows)
     \<and> (pc_is_active req = None \<longrightarrow> is_active r = Some True)
     \<and> created_at r = t1
     \<and> updated_at r = t2
     \<and> (created_at r = updated_at r \<longleftrightarrow> t1 = t2)"
proof (cases "query_first rows (pc_category req)")
  case None
  assume "snd (create_prompt rows req t1 t2) = Inr r"
  with create_prompt_new [OF None, of t1 t2] next_id_fresh [of rows]
  show ?thesis by auto
next
  case (Some p)
  assume "snd (create_prompt rows req t1 t2) = Inr r"
  with create_prompt_existing [OF Some, of "\<lambda>d. d" t1 t2]
  show ?thesis by (simp add: create_prompt_def)
qed

theorem create_prompt_returned_record_witness:
  "snd (create_prompt [example_row 4 ''z'' (Some False)] (example_create ''x'') 30 30)
     = Inr \<lparr>id_col = 5, category = ''x'', title = Some ''T'', prompt = Some ''P'',
            is_active = Some True, created_at = 30, updated_at = 30\<rparr>
   \<and> fst (create_prompt [example_row 4 ''z'' (Some False)] (example_create ''x'') 30 30)
       = [example_row 4 ''z'' (Some False),
          \<lparr>id_col = 5, category = ''x'', title = Some ''T'', prompt = Some ''P'',
           is_active = Some True, created_at = 30, updated_at = 30\<rparr>]
   \<and> pc_is_active (example_create ''x'') = None"
proof -
  have h: "snd (create_prompt [example_row 4 ''z'' (Some False)] (example_create ''x'') 30 30)
     = Inr \<lparr>id_col = 5, category = ''x'', title = Some ''T'', prompt = Some ''P'',
            is_active = Some True, created_at = 30, updated_at = 30\<rparr>"
    by (simp add: create_prompt_def create_prompt_interleaved_def query_first_def db_insert_def
        db_refresh_def Prompt_of_create_def example_create_def example_row_def next_id_def)
  show ?thesis
    using h create_prompt_returned_record [OF h] by (simp add: example_create_def)
qed

text \<open>
  With readings 30 and 31 the create succeeds and the two timestamps of the returned
  row differ.
\<close>

theorem create_prompt_timestamps_counterexample:
  "create_prompt [] (example_create ''x'') 30 31
     = ([\<lparr>id_col = 1, category = ''x'', title = Some ''T'', prompt = Some ''P'',
          is_active = Some True, created_at = 30, updated_at = 31\<rparr>],
        Inr \<lparr>id_col = 1, category = ''x'', title = Some ''T'', prompt = Some ''P'',
             is_active = Some True, created_at = 30, updated_at = 31\<rparr>)
   \<and> created_at \<lparr>id_col = 1, category = ''x'', title = Some ''T'', prompt = Some ''P'',
          is_active = Some True, created_at = 30, updated_at = 31\<rparr>
       \<noteq> updated_at \<lparr>id_col = 1, category = ''x'', title = Some ''T'', prompt = Some ''P'',
          is_active = Some True, created_at = 30, updated_at = 31\<rparr>"
  by (simp add: create_prompt_def create_prompt_interleaved_def query_first_def db_insert_def
      db_refresh_def Prompt_of_create_def example_create_def next_id_def)

section \<open>Deactivate and activate\<close>

text \<open>
  Claim C8. On a category that no row has, deactivate and activate fail with NotFound.
  In a table that satisfies the schema's constraints, on an existing category, deactivate
  succeeds and replaces the row by the row with \<open>is_active\<close> false, and activate does the
  same with \<open>is_active\<close> true; \<open>updated_at\<close> becomes the handler's clock reading, or the
  \<open>onupdate\<close> hook's when the handler's reading equals the stored value while the flag
  changes. So deactivating a row that is already inactive, or activating one that is
  already active, succeeds and changes nothing but \<open>updated_at\<close>, which becomes the
  handler's reading. Doing either twice leaves every field but \<open>updated_at\<close> as doing it
  once does, with \<open>updated_at\<close> the second call's reading.
\<close>

theorem deactivate_activate_idempotent:
  "(query_first rows c = None \<longrightarrow>
      delete_prompt rows c now h = (rows, Inl NotFound)
      \<and> activate_prompt rows c now h = (rows, Inl NotFound))
   \<and> (wf_store rows \<longrightarrow>
        (\<forall>p. query_first rows c = Some p \<longrightarrow>
           delete_prompt rows c now h
             = (map (\<lambda>r. if r = p
                   then p\<lparr>is_active := Some False,
                          updated_at :=
                            (if now = updated_at p \<and> is_active p \<noteq> Some False then h else now)\<rparr>
                   else r) rows,
                Inr ''Prompt deactivated successfully'')
           \<and> activate_prompt rows c now h
               = (map (\<lambda>r. if r = p
                     then p\<lparr>is_active := Some True,
                            updated_at :=
                              (if now = updated_at p \<and> is_active p \<noteq> Some True then h else now)\<rparr>
                     else r) rows,
                  Inr ''Prompt activated successfully'')
           \<and> (is_active p = Some False \<longrightarrow>
                delete_prompt rows c now h
                  = (map (\<lambda>r. if r = p then p\<lparr>updated_at := now\<rparr> else r) rows,
                     Inr ''Prompt deactivated successfully''))
           \<and> (is_active p = Some True \<longrightarrow>
                activate_prompt rows c now h
                  = (map (\<lambda>r. if r = p then p\<lparr>updated_at := now\<rparr> else r) rows,
                     Inr ''Prompt activated successfully''))
           \<and> delete_prompt (fst (delete_prompt rows c now h)) c now' h'
               = (map (\<lambda>r. if r = p then p\<lparr>is_active := Some False, updated_at := now'\<rparr> else r)
                    rows,
                  Inr ''Prompt deactivated successfully'')
           \<and> activate_prompt (fst (activate_prompt rows c now h)) c now' h'
               = (map (\<lambda>r. if r = p then p\<lparr>is_active := Some True, updated_at := now'\<rparr> else r)
                    rows,
                  Inr ''Prompt activated successfully'')))"
proof (intro conjI impI allI)
  assume "query_first rows c = None"
  then show "delete_prompt rows c now h = (rows, Inl NotFound)"
    and "activate_prompt rows c now h = (rows, Inl NotFound)"
    by (simp_all add: delete_prompt_def activate_prompt_def)
next
  fix p
  assume wf: "wf_store rows" and q: "query_first rows c = Some p"
  have mem: "p \<in> set rows"
    using query_first_SomeD [OF q] by simp
  define d where "d = p\<lparr>is_active := Some False,
      updated_at := (if now = updated_at p \<and> is_active p \<noteq> Some False then h else now)\<rparr>"
  define a where "a = p\<lparr>is_active := Some True,
      updated_at := (if now = updated_at p \<and> is_active p \<noteq> Some True then h else now)\<rparr>"
  note df = delete_prompt_found [OF wf q, of now h, folded d_def]
  note af = activate_prompt_found [OF wf q, of now h, folded a_def]
  show d1: "delete_prompt rows c now h
      = (map (\<lambda>r. if r = p
            then p\<lparr>is_active := Some False,
                   updated_at :=
                     (if now = updated_at p \<and> is_active p \<noteq> Some False then h else now)\<rparr>
            else r) rows,
         Inr ''Prompt deactivated successfully'')"
    using delete_prompt_found(1) [OF wf q] .
  show a1: "activate_prompt rows c now h
      = (map (\<lambda>r. if r = p
            then p\<lparr>is_active := Some True,
                   updated_at :=
                     (if now = updated_at p \<and> is_active p \<noteq> Some True then h else now)\<rparr>
            else r) rows,
         Inr ''Prompt activated successfully'')"
    using activate_prompt_found(1) [OF wf q] .
  show "delete_prompt rows c now h
      = (map (\<lambda>r. if r = p then p\<lparr>updated_at := now\<rparr> else r) rows,
         Inr ''Prompt deactivated successfully'')" if "is_active p = Some False"
  proof -
    from that have "d = p\<lparr>updated_at := now\<rparr>"
      by (cases p) (simp add: d_def)
    with df(1) show ?thesis by simp
  qed
  show "activate_prompt rows c now h
      = (map (\<lambda>r. if r = p then p\<lparr>updated_at := now\<rparr> else r) rows,
         Inr ''Prompt activated successfully'')" if "is_active p = Some True"
  proof -
    from that have "a = p\<lparr>updated_at := now\<rparr>"
      by (cases p) (simp add: a_def)
    with af(1) show ?thesis by simp
  qed
  show "delete_prompt (fst (delete_prompt rows c now h)) c now' h'
      = (map (\<lambda>r. if r = p then p\<lparr>is_active := Some False, updated_at := now'\<rparr> else r) rows,
         Inr ''Prompt deactivated successfully'')"
  proof -
    have r1: "fst (delete_prompt rows c now h) = map (\<lambda>r. if r = p then d else r) rows"
      using df(1) by simp
    have again: "d\<lparr>is_active := Some False,
          updated_at := (if now' = updated_at d \<and> is_active d \<noteq> Some False then h' else now')\<rparr>
        = p\<lparr>is_active := Some False, updated_at := now'\<rparr>"
      by (simp add: d_def)
    have "delete_prompt (fst (delete_prompt rows c now h)) c now' h'
        = (map (\<lambda>r. if r = d then p\<lparr>is_active := Some False, updated_at := now'\<rparr> else r)
             (fst (delete_prompt rows c now h)),
           Inr ''Prompt deactivated successfully'')"
      using delete_prompt_found(1) [OF df(2) df(3), of now' h'] unfolding again .
    moreover have "map (\<lambda>r. if r = d then p\<lparr>is_active := Some False, updated_at := now'\<rparr> else r)
          (map (\<lambda>r. if r = p then d else r) rows)
        = map (\<lambda>r. if r = p then p\<lparr>is_active := Some False, updated_at := now'\<rparr> else r) rows"
      using wf mem by (intro replace_twice) (simp_all add: wf_store_def d_def)
    ultimately show ?thesis by (simp add: r1)
  qed
  show "activate_prompt (fst (activate_prompt rows c now h)) c now' h'
      = (map (\<lambda>r. if r = p then p\<lparr>is_active := Some True, updated_at := now'\<rparr> else r) rows,
         Inr ''Prompt activated successfully'')"
  proof -
    have r1: "fst (activate_prompt rows c now h) = map (\<lambda>r. if r = p then a else r) rows"
      using af(1) by simp
    have again: "a\<lparr>is_active := Some True,
          updated_at := (if now' = updated_at a \<and> is_active a \<noteq> Some True then h' else now')\<rparr>
        = p\<lparr>is_active := Some True, updated_at := now'\<rparr>"
      by (simp add: a_def)
    have "activate_prompt (fst (activate_prompt rows c now h)) c now' h'
        = (map (\<lambda>r. if r = a then p\<lparr>is_active := Some True, updated_at := now'\<rparr> else r)
             (fst (activate_prompt rows c now h)),
           Inr ''Prompt activated successfully'')"
      using activate_prompt_found(1) [OF af(2) af(3), of now' h'] unfolding again .
    moreover have "map (\<lambda>r. if r = a then p\<lparr>is_active := Some True, updated_at := now'\<rparr> else r)
          (map (\<lambda>r. if r = p then a else r) rows)
        = map (\<lambda>r. if r = p then p\<lparr>is_active := Some True, updated_at := now'\<rparr> else r) rows"
      using wf mem by (intro replace_twice) (simp_all add: wf_store_def a_def)
    ultimately show ?thesis by (simp add: r1)
  qed
qed

theorem deactivate_activate_idempotent_witness:
  "query_first [example_row 1 ''x'' (Some False)] ''y'' = None
   \<and> delete_prompt [example_row 1 ''x'' (Some False)] ''y'' 30 31
       = ([example_row 1 ''x'' (Some False)], Inl NotFound)
   \<and> activate_prompt [example_row 1 ''x'' (Some False)] ''y'' 30 31
       = ([example_row 1 ''x'' (Some False)], Inl NotFound)
   \<and> wf_store [example_row 1 ''x'' (Some False), example_row 2 ''z'' (Some True)]
   \<and> query_first [example_row 1 ''x'' (Some False), example_row 2 ''z'' (Some True)] ''x''
       = Some (example_row 1 ''x'' (Some False))
   \<and> is_active (example_row 1 ''x'' (Some False)) = Some False
   \<and> delete_prompt [example_row 1 ''x'' (Some False), example_row 2 ''z'' (Some True)] ''x'' 30 31
       = ([(example_row 1 ''x'' (Some False))\<lparr>updated_at := 30\<rparr>, example_row 2 ''z'' (Some True)],
          Inr ''Prompt deactivated successfully'')
   \<and> activate_prompt [example_row 1 ''x'' (Some False), example_row 2 ''z'' (Some True)] ''x'' 20 21
       = ([(example_row 1 ''x'' (Some True))\<lparr>updated_at := 21\<rparr>, example_row 2 ''z'' (Some True)],
          Inr ''Prompt activated successfully'')
   \<and> query_first [example_row 1 ''x'' (Some False), example_row 2 ''z'' (Some True)] ''z''
       = Some (example_row 2 ''z'' (Some True))
   \<and> is_active (example_row 2 ''z'' (Some True)) = Some True
   \<and> activate_prompt [example_row 1 ''x'' (Some False), example_row 2 ''z'' (Some True)] ''z'' 30 31
       = ([example_row 1 ''x'' (Some False), (example_row 2 ''z'' (Some True))\<lparr>updated_at := 30\<rparr>],
          Inr ''Prompt activated successfully'')
   \<and> delete_prompt (fst (delete_prompt
          [example_row 1 ''x'' (Some False), example_row 2 ''z'' (Some True)] ''z'' 20 21)) ''z'' 40 41
       = ([example_row 1 ''x'' (Some False),
           (example_row 2 ''z'' (Some False))\<lparr>updated_at := 40\<rparr>],
          Inr ''Prompt deactivated successfully'')"
  using deactivate_activate_idempotent
          [of "[example_row 1 ''x'' (Some False)]" "''y''" 30 31 30 31]
        deactivate_activate_idempotent
          [of "[example_row 1 ''x'' (Some False), example_row 2 ''z'' (Some True)]" "''x''"
              30 31 30 31]
        deactivate_activate_idempotent
          [of "[example_row 1 ''x'' (Some False), example_row 2 ''z'' (Some True)]" "''x''"
              20 21 20 21]
        deactivate_activate_idempotent
          [of "[example_row 1 ''x'' (Some False), example_row 2 ''z'' (Some True)]" "''z''"
              30 31 30 31]
        deactivate_activate_idempotent
          [of "[example_row 1 ''x'' (Some False), example_row 2 ''z'' (Some True)]" "''z''"
              20 21 40 41]
  by (simp add: example_row_def query_first_def wf_store_def delete_prompt_def
      activate_prompt_def db_update_def committed_row_def)

section \<open>Seeding failure\<close>

text \<open>
  Claim C9. Seeding has found the table empty and another writer has committed rows
  before seeding commits. When an insert of the seeding transaction fails (the only
  failure of the storage model is the unique index on \<open>category\<close>, which fires exactly
  when a default category is already taken), \<open>init_default_prompts\<close> prints the error and
  the table is exactly what the other writer left: no default row of this run stays,
  also not those inserted before the failing one. The function returns normally, so
  startup goes on.
\<close>

theorem seeding_failure_rolled_back:
  "rows = [] \<Longrightarrow>
   \<exists>c \<in> set (map new_category default_prompts). c \<in> set (map category (concurrent rows)) \<Longrightarrow>
   flush_inserts (concurrent rows) default_prompts clock 0 = Inl IntegrityError
   \<and> init_default_prompts_interleaved concurrent rows clock
       = (concurrent rows, [Print_error ''Error initializing default prompts: '' IntegrityError])"
  by (simp add: init_default_prompts_interleaved_def flush_inserts_clash)

theorem seeding_failure_rolled_back_witness:
  "([] :: Prompt list) = []
   \<and> (\<exists>c \<in> set (map new_category default_prompts).
         c \<in> set (map category ((\<lambda>d. d @ [example_row 1 ''performance'' (Some True)]) [])))
   \<and> flush_inserts [example_row 1 ''performance'' (Some True)] default_prompts
        (\<lambda>k. 100 + k) 0 = Inl IntegrityError
   \<and> init_default_prompts_interleaved (\<lambda>d. d @ [example_row 1 ''performance'' (Some True)]) []
        (\<lambda>k. 100 + k)
       = ([example_row 1 ''performance'' (Some True)],
          [Print_error ''Error initializing default prompts: '' IntegrityError])"
proof -
  have h: "\<exists>c \<in> set (map new_category default_prompts).
         c \<in> set (map category ((\<lambda>d. d @ [example_row 1 ''performance'' (Some True)]) []))"
    by (simp add: default_prompts_def example_row_def)
  show ?thesis
    using h seeding_failure_rolled_back
      [of "[]" "\<lambda>d. d @ [example_row 1 ''performance'' (Some True)]" "\<lambda>k. 100 + k",
       OF refl h]
    by simp
qed

section \<open>Failed requests\<close>

text \<open>
  Claim C10. On a category that no row has, get, update, deactivate and activate raise
  NotFound, and create on a category that some row has raises Conflict; in each case the
  table after the call is the table before it. Conversely, whenever update, deactivate or
  activate raise NotFound, or create raises Conflict, the table is unchanged. (The get
  handler issues no write at all.)
\<close>

theorem failed_requests_change_nothing:
  "(query_first rows c = None \<longrightarrow>
      get_prompt_by_category rows c = Inl NotFound
      \<and> update_prompt rows c u now h = (rows, Inl NotFound)
      \<and> delete_prompt rows c now h = (rows, Inl NotFound)
      \<and> activate_prompt rows c now h = (rows, Inl NotFound))
   \<and> (query_first rows (pc_category req) \<noteq> None \<longrightarrow>
        create_prompt rows req t1 t2 = (rows, Inl Conflict))
   \<and> (snd (update_prompt rows c u now h) = Inl NotFound \<longrightarrow>
        fst (update_prompt rows c u now h) = rows)
   \<and> (snd (delete_prompt rows c now h) = Inl NotFound \<longrightarrow>
        fst (delete_prompt rows c now h) = rows)
   \<and> (snd (activate_prompt rows c now h) = Inl NotFound \<longrightarrow>
        fst (activate_prompt rows c now h) = rows)
   \<and> (snd (create_prompt rows req t1 t2) = Inl Conflict \<longrightarrow>
        fst (create_prompt rows req t1 t2) = rows)"
proof (intro conjI impI)
  assume "query_first rows c = None"
  then show "get_prompt_by_category rows c = Inl NotFound"
    and "update_prompt rows c u now h = (rows, Inl NotFound)"
    and "delete_prompt rows c now h = (rows, Inl NotFound)"
    and "activate_prompt rows c now h = (rows, Inl NotFound)"
    by (simp_all add: get_prompt_by_category_def update_prompt_def delete_prompt_def
        activate_prompt_def)
next
  assume "query_first rows (pc_category req) \<noteq> None"
  then show "create_prompt rows req t1 t2 = (rows, Inl Conflict)"
    by (auto simp: create_prompt_def create_prompt_existing)
next
  assume n: "snd (update_prompt rows c u now h) = Inl NotFound"
  show "fst (update_prompt rows c u now h) = rows"
  proof (cases "query_first rows c")
    case None
    then show ?thesis by (simp add: update_prompt_def)
  next
    case (Some p)
    with n show ?thesis
      by (simp add: update_prompt_def Let_def db_refresh_def NotFound_def split: option.splits)
  qed
next
  assume "snd (delete_prompt rows c now h) = Inl NotFound"
  then show "fst (delete_prompt rows c now h) = rows"
    by (cases "query_first rows c") (auto simp: delete_prompt_def)
next
  assume "snd (activate_prompt rows c now h) = Inl NotFound"
  then show "fst (activate_prompt rows c now h) = rows"
    by (cases "query_first rows c") (auto simp: activate_prompt_def)
next
  assume c: "snd (create_prompt rows req t1 t2) = Inl Conflict"
  show "fst (create_prompt rows req t1 t2) = rows"
  proof (cases "query_first rows (pc_category req)")
    case None
    from create_prompt_new [OF None, of t1 t2] c show ?thesis by simp
  next
    case (Some p)
    then show ?thesis by (simp add: create_prompt_def create_prompt_existing)
  qed
qed

theorem failed_requests_change_nothing_witness:
  "query_first [example_row 1 ''x'' (Some False)] ''y'' = None
   \<and> get_prompt_by_category [example_row 1 ''x'' (Some False)] ''y'' = Inl NotFound
   \<and> update_prompt [example_row 1 ''x'' (Some False)] ''y''
        \<lparr>pu_title = Some (Some ''T2''), pu_prompt = None, pu_is_active = None\<rparr> 30 31
       = ([example_row 1 ''x'' (Some False)], Inl NotFound)
   \<and> delete_prompt [example_row 1 ''x'' (Some False)] ''y'' 30 31
       = ([example_row 1 ''x'' (Some False)], Inl NotFound)
   \<and> activate_prompt [example_row 1 ''x'' (Some False)] ''y'' 30 31
       = ([example_row 1 ''x'' (Some False)], Inl NotFound)
   \<and> query_first [example_row 1 ''x'' (Some False)] (pc_category (example_create ''x'')) \<noteq> None
   \<and> create_prompt [example_row 1 ''x'' (Some False)] (example_create ''x'') 30 31
       = ([example_row 1 ''x'' (Some False)], Inl Conflict)"
  using failed_requests_change_nothing
          [of "[example_row 1 ''x'' (Some False)]" "''y''"
              "\<lparr>pu_title = Some (Some ''T2''), pu_prompt = None, pu_is_active = None\<rparr>" 30 31
              "example_create ''x''" 30 31]
  by (simp add: example_row_def example_create_def query_first_def)

end
